theory Spec2Isabelle
  imports Main
begin

section \<open>Configuration loading and hot reload (internal/config/struct.go)\<close>

text \<open>
  A shallow embedding of \<^verbatim>\<open>internal/config/struct.go\<close>: the \<^verbatim>\<open>Config\<close> struct,
  \<^verbatim>\<open>RegisterHandler\<close>, \<^verbatim>\<open>parseConfig\<close>, \<^verbatim>\<open>ReadConfigFile\<close> and the body of
  the goroutine that \<^verbatim>\<open>ReadConfigFile\<close> starts when monitoring is requested.

  Go strings are byte sequences, so paths and file contents are \<^typ>\<open>string\<close>.
  Every call the code makes to a collaborator (logger, file system, YAML codec,
  fsnotify, \<^verbatim>\<open>time.Sleep\<close>, a registered handler) is recorded, in program order,
  in a list of calls that each function returns next to its result.
\<close>

type_synonym path = string
type_synonym bytes = string

subsection \<open>path/filepath of the Go standard library (Unix)\<close>

text \<open>
  \<^verbatim>\<open>filepath.Dir\<close> and \<^verbatim>\<open>filepath.Base\<close> are not code of this repository; they are
  transcribed from the Go standard library, for a Unix target (the separator is
  \<^verbatim>\<open>/\<close> and the volume name is empty).
\<close>

definition IsPathSeparator :: "char \<Rightarrow> bool" where
  "IsPathSeparator c = (c = CHR ''/'')"

text \<open>
  The \<^verbatim>\<open>..\<close> case of \<^verbatim>\<open>Clean\<close>, when it can backtrack:
  \<^verbatim>\<open>out.w--; for out.w > dotdot && !os.IsPathSeparator(out.index(out.w)) { out.w-- }\<close>.
  The buffer holds \<open>out\<close>; \<^verbatim>\<open>out.index(out.w)\<close> is the byte that the last decrement
  has just dropped.
\<close>

fun backtrack :: "string \<Rightarrow> nat \<Rightarrow> string" where
  "backtrack [] dotdot = []"
| "backtrack (c # cs) dotdot =
     (let dropped = last (c # cs); out = butlast (c # cs)
      in if length out > dotdot \<and> \<not> IsPathSeparator dropped
         then backtrack out dotdot else out)"

text \<open>
  The main loop of \<^verbatim>\<open>Clean\<close>: the first argument is the unread rest of the path
  (\<^verbatim>\<open>path[r:]\<close>), \<open>out\<close> the bytes written so far (\<^verbatim>\<open>out.w\<close> is its length).
\<close>

function clean_loop :: "bool \<Rightarrow> string \<Rightarrow> string \<Rightarrow> nat \<Rightarrow> string" where
  "clean_loop rooted [] out dotdot = out"
| "clean_loop rooted (c # rest) out dotdot =
     (if IsPathSeparator c then clean_loop rooted rest out dotdot
      else if c = CHR ''.'' \<and> (rest = [] \<or> IsPathSeparator (hd rest))
        then clean_loop rooted rest out dotdot
      else if c = CHR ''.'' \<and> hd rest = CHR ''.''
              \<and> (tl rest = [] \<or> IsPathSeparator (hd (tl rest)))
        then (if length out > dotdot
                then clean_loop rooted (tl rest) (backtrack out dotdot) dotdot
              else if \<not> rooted
                then (let out' = (if length out > 0 then out @ ''/'' else out) @ ''..''
                      in clean_loop rooted (tl rest) out' (length out'))
              else clean_loop rooted (tl rest) out dotdot)
      else (let out' = (if rooted \<and> length out \<noteq> 1 \<or> \<not> rooted \<and> length out \<noteq> 0
                        then out @ ''/'' else out)
            in clean_loop rooted
                 (dropWhile (\<lambda>x. \<not> IsPathSeparator x) (c # rest))
                 (out' @ takeWhile (\<lambda>x. \<not> IsPathSeparator x) (c # rest)) dotdot))"
  by pat_completeness auto
termination
proof (relation "measure (\<lambda>(rooted, p, out, dotdot). length p)")
  show "wf (measure (\<lambda>(rooted, p, out, dotdot). length p))" by simp
next
  fix rooted :: bool and c :: char and rest out :: string and dotdot :: nat and x :: string
  assume "\<not> IsPathSeparator c"
  have "length (dropWhile (\<lambda>x. \<not> IsPathSeparator x) rest) \<le> length rest"
    by (rule length_dropWhile_le)
  with \<open>\<not> IsPathSeparator c\<close>
  show "((rooted, dropWhile (\<lambda>x. \<not> IsPathSeparator x) (c # rest),
          x @ takeWhile (\<lambda>x. \<not> IsPathSeparator x) (c # rest), dotdot),
         (rooted, c # rest, out, dotdot))
        \<in> measure (\<lambda>(rooted, p, out, dotdot). length p)"
    by simp
qed (auto simp: less_Suc_eq_le intro: le_trans [OF diff_le_self])

definition Clean :: "path \<Rightarrow> path" where
  "Clean p =
     (if p = '''' then ''.''
      else (let rooted = IsPathSeparator (hd p);
                out = (if rooted then clean_loop rooted (tl p) ''/'' 1
                       else clean_loop rooted p '''' 0)
            in if length out = 0 then ''.'' else out))"

text \<open>
  \<^verbatim>\<open>Dir\<close>: \<^verbatim>\<open>i := len(path) - 1; for i >= 0 && !os.IsPathSeparator(path[i]) { i-- }\<close>
  and then \<^verbatim>\<open>Clean(path[:i+1])\<close>: the path up to and including its last separator.
\<close>

definition Dir :: "path \<Rightarrow> path" where
  "Dir p = Clean (rev (dropWhile (\<lambda>x. \<not> IsPathSeparator x) (rev p)))"

text \<open>
  \<^verbatim>\<open>Base\<close>: the empty path gives \<^verbatim>\<open>.\<close>; trailing separators are stripped, then
  everything up to the last separator; a path of separators only gives \<^verbatim>\<open>/\<close>.
\<close>

definition Base :: "path \<Rightarrow> path" where
  "Base p =
     (if p = '''' then ''.''
      else (let stripped = rev (dropWhile IsPathSeparator (rev p));
                elem = rev (takeWhile (\<lambda>x. \<not> IsPathSeparator x) (rev stripped))
            in if elem = '''' then ''/'' else elem))"

subsection \<open>The store and its collaborators\<close>

text \<open>
  \<^verbatim>\<open>type Config struct { *api.Config; logger log15.Logger; handlers []func(*Config) }\<close>.
  The embedded pointer \<^verbatim>\<open>*api.Config\<close> is an option (\<open>None\<close> is \<^verbatim>\<open>nil\<close>) over a
  document type \<open>'d\<close> whose schema lives in another package. Handlers are Go
  closures; they are values of an opaque type \<open>'h\<close>, and calling one is recorded with
  the store it is passed. The logger is a collaborator: what is written to it is
  recorded in the list of calls.
\<close>

record ('d, 'h) Config =
  Config :: "'d option"
  handlers :: "'h list"

text \<open>The errors built with \<^verbatim>\<open>fmt.Errorf\<close>, one constructor per format string, and
  an error value received on \<^verbatim>\<open>watcher.Errors\<close>.\<close>

datatype error =
    DoesNotExist path
  | FailedToRead string
  | FailedToParse string
  | UnableToSetupFsnotify string
  | UnableToSetupFsnotifyWatch string
  | WatcherError string

text \<open>What \<^verbatim>\<open>parseConfig\<close> is handed as \<^verbatim>\<open>conf interface{}\<close>: \<^verbatim>\<open>&conf.Config\<close> at the
  first load (line 55), \<^verbatim>\<open>conf.Config\<close> itself, the pointer the store holds, in the
  goroutine (line 95).\<close>

datatype target = Addr | Ptr

text \<open>The calls made to collaborators. \<open>Info\<close> and \<open>Error\<close> are the logger's methods,
  with the message and the values of the context; \<open>Sleep\<close> carries the duration in
  nanoseconds.\<close>

datatype ('d, 'h) call =
    PathExists path
  | Info string path
  | Error string "path option" error
  | ReadFile path
  | Unmarshal bytes target
  | Marshal "'d option"
  | NewWatcher
  | Add path
  | Sleep nat
  | Handler 'h "('d, 'h) Config"

definition Second :: nat where
  "Second = 1000000000"

text \<open>
  The YAML library. \<^verbatim>\<open>yaml.Unmarshal(content, conf)\<close> writes through the pointer it
  is given and returns an error or \<^verbatim>\<open>nil\<close>: it maps the bytes, the kind of target
  and the value of \<^verbatim>\<open>conf.Config\<close> before the call to the error and the value of
  \<^verbatim>\<open>conf.Config\<close> after it. \<^verbatim>\<open>yaml.Marshal\<close> gives the bytes it returns (its error
  is dropped at both call sites).
\<close>

record 'd yaml =
  yaml_Unmarshal :: "bytes \<Rightarrow> target \<Rightarrow> 'd option \<Rightarrow> string option \<times> 'd option"
  yaml_Marshal :: "'d option \<Rightarrow> bytes"

text \<open>The file system at one moment: \<^verbatim>\<open>utils.PathExists\<close> and \<^verbatim>\<open>ioutil.ReadFile\<close>
  (\<open>Inl\<close> is the error).\<close>

record fs =
  utils_PathExists :: "path \<Rightarrow> bool"
  ioutil_ReadFile :: "path \<Rightarrow> string + bytes"

text \<open>fsnotify: the error of \<^verbatim>\<open>fsnotify.NewWatcher()\<close> and of \<^verbatim>\<open>watcher.Add(dir)\<close>
  (\<open>None\<close> is \<^verbatim>\<open>nil\<close>).\<close>

record fsnotify =
  fsnotify_NewWatcher :: "string option"
  watcher_Add :: "path \<Rightarrow> string option"

subsection \<open>RegisterHandler and parseConfig\<close>

definition RegisterHandler :: "('d, 'h) Config \<Rightarrow> 'h \<Rightarrow> ('d, 'h) Config \<times> error option" where
  "RegisterHandler c handler = (c\<lparr>handlers := handlers c @ [handler]\<rparr>, None)"

text \<open>\<^verbatim>\<open>parseConfig\<close> returns its calls, its error and the value of \<^verbatim>\<open>conf.Config\<close>
  when it returns.\<close>

definition parseConfig ::
  "'d yaml \<Rightarrow> fs \<Rightarrow> path \<Rightarrow> target \<Rightarrow> 'd option
     \<Rightarrow> ('d, 'h) call list \<times> error option \<times> 'd option" where
  "parseConfig Y F configPath tgt conf =
     (case ioutil_ReadFile F configPath of
        Inl err \<Rightarrow> ([ReadFile configPath], Some (FailedToRead err), conf)
      | Inr content \<Rightarrow>
          (case yaml_Unmarshal Y content tgt conf of
             (Some err, conf') \<Rightarrow>
               ([ReadFile configPath, Unmarshal content tgt], Some (FailedToParse err), conf')
           | (None, conf') \<Rightarrow>
               ([ReadFile configPath, Unmarshal content tgt], None, conf')))"

subsection \<open>ReadConfigFile\<close>

text \<open>What the goroutine's closure captures besides \<^verbatim>\<open>conf\<close>, \<^verbatim>\<open>configPath\<close> and the
  logger.\<close>

record watch =
  pathDir :: path
  pathBase :: path

definition watched_dir :: "path \<Rightarrow> path" where
  "watched_dir configPath =
     (let pathDir = Dir configPath in if pathDir = '''' then ''./'' else pathDir)"

text \<open>
  What a call of \<^verbatim>\<open>ReadConfigFile\<close> leaves behind: the calls it made, the two values
  it returns (\<open>None\<close> is \<^verbatim>\<open>nil\<close>), and the values captured by the goroutine when one
  was started.
\<close>

record ('d, 'h) returned =
  made :: "('d, 'h) call list"
  ret_conf :: "('d, 'h) Config option"
  ret_err :: "error option"
  started :: "watch option"

definition ReadConfigFile ::
  "'d yaml \<Rightarrow> fs \<Rightarrow> fsnotify \<Rightarrow> path \<Rightarrow> bool \<Rightarrow> ('d, 'h) returned" where
  "ReadConfigFile Y F N configPath monitor =
     (if \<not> utils_PathExists F configPath
        then \<lparr>made = [PathExists configPath], ret_conf = None,
              ret_err = Some (DoesNotExist configPath), started = None\<rparr>
      else
        (let conf = \<lparr>Config = None, handlers = []\<rparr>;
             (calls, err, d) = parseConfig Y F configPath Addr (Config conf);
             conf = conf\<lparr>Config := d\<rparr>;
             parsed = [PathExists configPath, Info ''Parsing configuration'' configPath] @ calls
         in case err of
              Some e \<Rightarrow> \<lparr>made = parsed, ret_conf = None, ret_err = Some e, started = None\<rparr>
            | None \<Rightarrow>
                if monitor then
                  (let setup = parsed @ [Info ''Setting up configuration watch'' configPath,
                                         NewWatcher]
                   in case fsnotify_NewWatcher N of
                        Some e \<Rightarrow> \<lparr>made = setup, ret_conf = None,
                                    ret_err = Some (UnableToSetupFsnotify e), started = None\<rparr>
                      | None \<Rightarrow>
                          (case watcher_Add N (Dir configPath) of
                             Some e \<Rightarrow> \<lparr>made = setup @ [Add (Dir configPath)], ret_conf = None,
                                         ret_err = Some (UnableToSetupFsnotifyWatch e),
                                         started = None\<rparr>
                           | None \<Rightarrow>
                               \<lparr>made = setup @ [Add (Dir configPath)], ret_conf = Some conf,
                                ret_err = None,
                                started = Some \<lparr>pathDir = watched_dir configPath,
                                                 pathBase = Base configPath\<rparr>\<rparr>))
                else \<lparr>made = parsed, ret_conf = Some conf, ret_err = None, started = None\<rparr>))"

subsection \<open>The goroutine\<close>

text \<open>What one \<^verbatim>\<open>select\<close> receives: an event (its \<^verbatim>\<open>Name\<close>) from
  \<^verbatim>\<open>watcher.Events\<close> or an error from \<^verbatim>\<open>watcher.Errors\<close>.\<close>

datatype received = Events string | Errors string

text \<open>
  One iteration of \<^verbatim>\<open>for { select { ... } }\<close> (lines 81 to 113). \<open>F\<close> is the file
  system as \<^verbatim>\<open>parseConfig\<close> finds it after the sleep. The result is the calls made and
  the store when the iteration ends; every branch ends the iteration and none leaves
  the loop.
\<close>

definition iteration ::
  "'d yaml \<Rightarrow> path \<Rightarrow> watch \<Rightarrow> fs \<Rightarrow> received \<Rightarrow> ('d, 'h) Config
     \<Rightarrow> ('d, 'h) call list \<times> ('d, 'h) Config" where
  "iteration Y configPath W F r conf =
     (case r of
        Events name \<Rightarrow>
          if name \<noteq> pathDir W @ ''/'' @ pathBase W then ([], conf)
          else
            (let oldData = yaml_Marshal Y (Config conf);
                 (calls, err, d) = parseConfig Y F configPath Ptr (Config conf);
                 conf' = conf\<lparr>Config := d\<rparr>;
                 logged = (case err of
                             Some e \<Rightarrow> [Error ''Failed to read the new configuration''
                                         (Some configPath) e]
                           | None \<Rightarrow> []);
                 newData = yaml_Marshal Y (Config conf');
                 compared = [Marshal (Config conf), Sleep Second] @ calls @ logged
                              @ [Marshal (Config conf')]
             in if oldData = newData then (compared, conf')
                else (compared @ [Info ''Configuration file changed, reloading'' configPath]
                        @ map (\<lambda>handler. Handler handler conf') (handlers conf'),
                      conf'))
      | Errors err \<Rightarrow> ([Error ''Got bad file notification'' None (WatcherError err)], conf))"

text \<open>
  The life of a monitored store: the goroutine's iterations, each with the file system
  of its moment, interleaved with calls of \<^verbatim>\<open>RegisterHandler\<close> from the rest of the
  process. A registration is taken between two iterations.
\<close>

datatype 'h occurrence = Received received fs | Registered 'h

definition occur ::
  "'d yaml \<Rightarrow> path \<Rightarrow> watch \<Rightarrow> 'h occurrence \<Rightarrow> ('d, 'h) Config
     \<Rightarrow> ('d, 'h) call list \<times> ('d, 'h) Config" where
  "occur Y configPath W x conf =
     (case x of
        Received r F \<Rightarrow> iteration Y configPath W F r conf
      | Registered handler \<Rightarrow> ([], fst (RegisterHandler conf handler)))"

fun session ::
  "'d yaml \<Rightarrow> path \<Rightarrow> watch \<Rightarrow> 'h occurrence list \<Rightarrow> ('d, 'h) Config
     \<Rightarrow> ('d, 'h) call list \<times> ('d, 'h) Config" where
  "session Y configPath W [] conf = ([], conf)"
| "session Y configPath W (x # xs) conf =
     (let (calls, conf') = occur Y configPath W x conf;
          (calls', conf'') = session Y configPath W xs conf'
      in (calls @ calls', conf''))"

subsection \<open>Observations on a list of calls\<close>

text \<open>The handler invocations of a list of calls, in order, each with the store it
  was passed.\<close>

fun invoked :: "('d, 'h) call list \<Rightarrow> ('h \<times> ('d, 'h) Config) list" where
  "invoked [] = []"
| "invoked (Handler h c # cs) = (h, c) # invoked cs"
| "invoked (_ # cs) = invoked cs"

text \<open>The durations of the sleeps of a list of calls, in order.\<close>

fun sleeps :: "('d, 'h) call list \<Rightarrow> nat list" where
  "sleeps [] = []"
| "sleeps (Sleep n # cs) = n # sleeps cs"
| "sleeps (_ # cs) = sleeps cs"

text \<open>What the logger was given, in order.\<close>

fun logged :: "('d, 'h) call list \<Rightarrow> ('d, 'h) call list" where
  "logged [] = []"
| "logged (Info m p # cs) = Info m p # logged cs"
| "logged (Error m p e # cs) = Error m p e # logged cs"
| "logged (_ # cs) = logged cs"

text \<open>Whether an occurrence is an event that the goroutine's filter (line 84) lets
  through.\<close>

definition accepts :: "watch \<Rightarrow> 'h occurrence \<Rightarrow> bool" where
  "accepts W x =
     (case x of
        Received (Events name) F \<Rightarrow> name = pathDir W @ ''/'' @ pathBase W
      | _ \<Rightarrow> False)"

subsection \<open>A small document type for concrete runs\<close>

text \<open>
  A document of two one-byte fields, written as a file of two bytes. The decoder works
  the way \<^verbatim>\<open>yaml.v2\<close> decodes into a struct it is given: field by field into the
  target; a field whose byte is not a digit is a type error, which is remembered while
  decoding goes on with the next field, and reported at the end. A file that is not
  two bytes long is a syntax error, found before anything is written. Through
  \<^verbatim>\<open>&conf.Config\<close> a \<^verbatim>\<open>nil\<close> pointer is replaced by a fresh zero document; a \<^verbatim>\<open>nil\<close>
  pointer passed by value cannot be written through.
\<close>

type_synonym two = "char \<times> char"

definition digit :: "char \<Rightarrow> bool" where
  "digit c = (c \<in> set ''0123456789'')"

definition two_Unmarshal :: "bytes \<Rightarrow> target \<Rightarrow> two option \<Rightarrow> string option \<times> two option" where
  "two_Unmarshal content tgt conf =
     (case content of
        [x, y] \<Rightarrow>
          (case (tgt, conf) of
             (Ptr, None) \<Rightarrow> (Some ''nil target'', None)
           | (_, None) \<Rightarrow>
               (if digit x \<and> digit y then None else Some ''cannot unmarshal'',
                Some (if digit x then x else CHR ''0'', if digit y then y else CHR ''0''))
           | (_, Some (a, b)) \<Rightarrow>
               (if digit x \<and> digit y then None else Some ''cannot unmarshal'',
                Some (if digit x then x else a, if digit y then y else b)))
      | _ \<Rightarrow> (Some ''syntax error'', conf))"

definition two_Marshal :: "two option \<Rightarrow> bytes" where
  "two_Marshal conf = (case conf of None \<Rightarrow> ''null'' | Some (a, b) \<Rightarrow> [a, b])"

definition two_yaml :: "two yaml" where
  "two_yaml = \<lparr>yaml_Unmarshal = two_Unmarshal, yaml_Marshal = two_Marshal\<rparr>"

text \<open>A file system whose only file is \<^verbatim>\<open>/etc/askgod.yaml\<close>, with the given content.\<close>

definition disk :: "bytes \<Rightarrow> fs" where
  "disk content =
     \<lparr>utils_PathExists = (\<lambda>p. p = ''/etc/askgod.yaml''),
      ioutil_ReadFile = (\<lambda>p. if p = ''/etc/askgod.yaml'' then Inr content
                              else Inl ''no such file or directory'')\<rparr>"

text \<open>fsnotify working, failing to create a watcher, and failing to add a directory.\<close>

definition notify_ok :: fsnotify where
  "notify_ok = \<lparr>fsnotify_NewWatcher = None, watcher_Add = (\<lambda>p. None)\<rparr>"

definition notify_no_watcher :: fsnotify where
  "notify_no_watcher =
     \<lparr>fsnotify_NewWatcher = Some ''too many open files'', watcher_Add = (\<lambda>p. None)\<rparr>"

definition notify_no_add :: fsnotify where
  "notify_no_add =
     \<lparr>fsnotify_NewWatcher = None, watcher_Add = (\<lambda>p. Some ''no space left on device'')\<rparr>"

text \<open>The values captured by the goroutine for \<^verbatim>\<open>/etc/askgod.yaml\<close>.\<close>

definition etc_watch :: watch where
  "etc_watch = \<lparr>pathDir = ''/etc'', pathBase = ''askgod.yaml''\<rparr>"

text \<open>A store holding the document \<^verbatim>\<open>12\<close>, with two handlers registered.\<close>

definition held :: "(two, nat) Config" where
  "held = \<lparr>Config = Some (CHR ''1'', CHR ''2''), handlers = [10, 20]\<rparr>"



text \<open>A file system on which every path exists and no file can be read.\<close>

definition unreadable :: fs where
  "unreadable =
     \<lparr>utils_PathExists = (\<lambda>p. True), ioutil_ReadFile = (\<lambda>p. Inl ''permission denied'')\<rparr>"


section \<open>Properties\<close>

subsection \<open>Auxiliary facts\<close>

lemma Clean_not_empty: "Clean p \<noteq> ''''"
  by (simp add: Clean_def Let_def)

lemma Dir_not_empty: "Dir p \<noteq> ''''"
  by (simp add: Dir_def Clean_not_empty)

lemma parseConfig_cases:
  "parseConfig Y F p t d = (calls, err, d') \<Longrightarrow>
     (\<exists>e. ioutil_ReadFile F p = Inl e \<and> calls = [ReadFile p] \<and> err = Some (FailedToRead e)
            \<and> d' = d)
     \<or> (\<exists>content e. ioutil_ReadFile F p = Inr content
            \<and> calls = [ReadFile p, Unmarshal content t]
            \<and> yaml_Unmarshal Y content t d = (e, d')
            \<and> err = map_option FailedToParse e)"
  by (auto simp: parseConfig_def split: sum.splits prod.splits option.splits)

lemma parseConfig_ex: "\<exists>calls err d'. parseConfig Y F p t d = (calls, err, d')"
  by (metis prod_cases3)

lemma iteration_accepted:
  "parseConfig Y F p Ptr (Config conf) = (calls, err, d) \<Longrightarrow>
   iteration Y p W F (Events (pathDir W @ ''/'' @ pathBase W)) conf =
     ([Marshal (Config conf), Sleep Second] @ calls
        @ (case err of
             Some e \<Rightarrow> [Error ''Failed to read the new configuration'' (Some p) e]
           | None \<Rightarrow> [])
        @ [Marshal d]
        @ (if yaml_Marshal Y (Config conf) = yaml_Marshal Y d then []
           else Info ''Configuration file changed, reloading'' p
                  # map (\<lambda>handler. Handler handler (conf\<lparr>Config := d\<rparr>)) (handlers conf)),
      conf\<lparr>Config := d\<rparr>)"
  by (simp add: iteration_def Let_def)

lemma iteration_rejected:
  "name \<noteq> pathDir W @ ''/'' @ pathBase W \<Longrightarrow>
   iteration Y p W F (Events name) conf = ([], conf)"
  by (simp add: iteration_def)

lemma invoked_append: "invoked (xs @ ys) = invoked xs @ invoked ys"
  by (induction xs rule: invoked.induct) simp_all

lemma sleeps_append: "sleeps (xs @ ys) = sleeps xs @ sleeps ys"
  by (induction xs rule: sleeps.induct) simp_all

lemma logged_append: "logged (xs @ ys) = logged xs @ logged ys"
  by (induction xs rule: logged.induct) simp_all

lemma invoked_handlers: "invoked (map (\<lambda>h. Handler h c) hs) = map (\<lambda>h. (h, c)) hs"
  by (induction hs) simp_all

lemma sleeps_handlers: "sleeps (map (\<lambda>h. Handler h c) hs) = []"
  by (induction hs) simp_all

lemma parseConfig_quiet:
  "parseConfig Y F p t d = (calls, err, d') \<Longrightarrow>
     invoked calls = [] \<and> sleeps calls = [] \<and> logged calls = []"
  by (auto dest!: parseConfig_cases)

lemma session_append:
  "session Y p W (xs @ ys) conf =
     (let (calls, conf') = session Y p W xs conf;
          (calls', conf'') = session Y p W ys conf'
      in (calls @ calls', conf''))"
  by (induction xs arbitrary: conf) (simp_all add: Let_def split: prod.splits)

lemma session_registrations:
  "session Y p W (map Registered hs) conf = ([], conf\<lparr>handlers := handlers conf @ hs\<rparr>)"
  by (induction hs arbitrary: conf) (simp_all add: occur_def RegisterHandler_def)

lemma iteration_sleeps:
  fixes conf :: "('d, 'h) Config"
  shows "sleeps (fst (iteration Y p W F r conf)) =
           (if accepts W (Received r F :: 'h occurrence) then [Second] else [])"
proof (cases r)
  case (Errors e)
  then show ?thesis by (simp add: iteration_def accepts_def)
next
  case (Events name)
  show ?thesis
  proof (cases "name = pathDir W @ ''/'' @ pathBase W")
    case False
    with Events show ?thesis by (simp add: iteration_rejected accepts_def)
  next
    case True
    obtain calls :: "('d, 'h) call list" and err d
      where pc: "parseConfig Y F p Ptr (Config conf) = (calls, err, d)"
      using parseConfig_ex by blast
    from parseConfig_quiet [OF pc] have "sleeps calls = []" by simp
    with iteration_accepted [OF pc, of W] True Events show ?thesis
      by (simp add: accepts_def sleeps_append sleeps_handlers split: option.splits)
  qed
qed

lemma session_sleeps:
  fixes conf :: "('d, 'h) Config"
  shows "sleeps (fst (session Y p W xs conf)) = replicate (length (filter (accepts W) xs)) Second"
proof (induction xs arbitrary: conf)
  case Nil
  show ?case by simp
next
  case (Cons x xs)
  show ?case
  proof (cases x)
    case (Registered h)
    with Cons [of "fst (RegisterHandler conf h)"] show ?thesis
      by (auto simp add: occur_def accepts_def split: prod.splits)
  next
    case (Received r F)
    obtain calls conf' where it: "iteration Y p W F r conf = (calls, conf')"
      by (cases "iteration Y p W F r conf") auto
    with iteration_sleeps [of Y p W F r conf]
    have s: "sleeps calls = (if accepts W (Received r F :: 'h occurrence) then [Second] else [])"
      by simp
    from Cons [of conf'] it Received s show ?thesis
      by (auto simp add: occur_def sleeps_append split: prod.splits)
  qed
qed
subsection \<open>Errors of the subscription (C8)\<close>

text \<open>
  C8. An error received on \<^verbatim>\<open>watcher.Errors\<close> is logged and nothing else happens in
  that iteration: the store (document and handlers) is unchanged and no handler is
  called. The loop goes on: in a session, whatever comes after the error is processed
  from the store as it was before the error.
\<close>

theorem C8_subscription_error:
  "iteration Y configPath W F (Errors e) conf =
     ([Error ''Got bad file notification'' None (WatcherError e)], conf)
   \<and> invoked (fst (iteration Y configPath W F (Errors e) conf)) = []
   \<and> session Y configPath W (xs @ Received (Errors e) F # ys) conf =
       (let (before, conf') = session Y configPath W xs conf;
            (after, conf'') = session Y configPath W ys conf'
        in (before @ [Error ''Got bad file notification'' None (WatcherError e)] @ after,
            conf''))"
  by (simp add: session_append iteration_def occur_def Let_def split: prod.splits)

subsection \<open>The fallback for an empty directory (C10)\<close>

text \<open>
  C10. \<^verbatim>\<open>filepath.Dir\<close> never returns the empty string, so the branch
  \<^verbatim>\<open>if pathDir == "" { pathDir = "./" }\<close> is never taken: the directory of the watched
  path is \<^verbatim>\<open>filepath.Dir(configPath)\<close> itself, also in the values a started goroutine
  captures.
\<close>

theorem C10_fallback_unreachable:
  fixes Y :: "'d yaml"
  shows
  "Dir configPath \<noteq> '''' \<and> watched_dir configPath = Dir configPath
   \<and> (started (ReadConfigFile Y F N configPath monitor :: ('d, 'h) returned) = None
        \<or> started (ReadConfigFile Y F N configPath monitor :: ('d, 'h) returned) =
             Some \<lparr>pathDir = Dir configPath, pathBase = Base configPath\<rparr>)"
proof -
  obtain calls :: "('d, 'h) call list" and err d
    where pc: "parseConfig Y F configPath Addr None = (calls, err, d)"
    using parseConfig_ex by blast
  have "watched_dir configPath = Dir configPath"
    by (simp add: Dir_not_empty watched_dir_def)
  with pc show ?thesis
    by (simp add: Dir_not_empty ReadConfigFile_def Let_def split: option.splits)
qed

subsection \<open>Failure to set up the watch (C9)\<close>

text \<open>
  C9. With \<^verbatim>\<open>monitor\<close> true, when the file exists and was parsed without error but
  \<^verbatim>\<open>fsnotify.NewWatcher\<close> or \<^verbatim>\<open>watcher.Add\<close> fails, \<^verbatim>\<open>ReadConfigFile\<close> returns
  \<^verbatim>\<open>nil\<close> and the error of the failed step, and starts no goroutine. Whenever a
  monitored load does return a store, a goroutine was started for it.
\<close>

theorem C9_watch_setup_failure:
  fixes Y :: "'d yaml" and R :: "('d, 'h) returned"
  assumes R: "R = ReadConfigFile Y F N configPath True"
  shows
  "(utils_PathExists F configPath \<and> parseConfig Y F configPath Addr None = (calls, None, d)
      \<and> (fsnotify_NewWatcher N = Some e
           \<or> fsnotify_NewWatcher N = None \<and> watcher_Add N (Dir configPath) = Some e)
    \<longrightarrow> R = \<lparr>made = [PathExists configPath, Info ''Parsing configuration'' configPath]
                     @ calls
                     @ [Info ''Setting up configuration watch'' configPath, NewWatcher]
                     @ (if fsnotify_NewWatcher N = None then [Add (Dir configPath)] else []),
             ret_conf = None,
             ret_err = Some (if fsnotify_NewWatcher N = None then UnableToSetupFsnotifyWatch e
                             else UnableToSetupFsnotify e),
             started = None\<rparr>)
   \<and> (ret_conf R \<noteq> None \<longrightarrow> started R \<noteq> None \<and> ret_err R = None)"
proof -
  obtain pcalls :: "('d, 'h) call list" and err d'
    where pc: "parseConfig Y F configPath Addr None = (pcalls, err, d')"
    using parseConfig_ex by blast
  show ?thesis
    unfolding R using pc
    by (auto simp add: ReadConfigFile_def Let_def split: option.splits)
qed

theorem C9_witness:
  "(ReadConfigFile two_yaml (disk ''12'') notify_no_watcher ''/etc/askgod.yaml'' True
      :: (two, nat) returned) =
     \<lparr>made = [PathExists ''/etc/askgod.yaml'',
              Info ''Parsing configuration'' ''/etc/askgod.yaml'',
              ReadFile ''/etc/askgod.yaml'', Unmarshal ''12'' Addr,
              Info ''Setting up configuration watch'' ''/etc/askgod.yaml'', NewWatcher],
      ret_conf = None,
      ret_err = Some (UnableToSetupFsnotify ''too many open files''),
      started = None\<rparr>
   \<and> (ReadConfigFile two_yaml (disk ''12'') notify_no_add ''/etc/askgod.yaml'' True
      :: (two, nat) returned) =
     \<lparr>made = [PathExists ''/etc/askgod.yaml'',
              Info ''Parsing configuration'' ''/etc/askgod.yaml'',
              ReadFile ''/etc/askgod.yaml'', Unmarshal ''12'' Addr,
              Info ''Setting up configuration watch'' ''/etc/askgod.yaml'', NewWatcher,
              Add (Dir ''/etc/askgod.yaml'')],
      ret_conf = None,
      ret_err = Some (UnableToSetupFsnotifyWatch ''no space left on device''),
      started = None\<rparr>
   \<and> ret_conf (ReadConfigFile two_yaml (disk ''12'') notify_ok ''/etc/askgod.yaml'' True
        :: (two, nat) returned) \<noteq> None
   \<and> started (ReadConfigFile two_yaml (disk ''12'') notify_ok ''/etc/askgod.yaml'' True
        :: (two, nat) returned) \<noteq> None"
proof -
  have p: "parseConfig two_yaml (disk ''12'') ''/etc/askgod.yaml'' Addr None =
             ([ReadFile ''/etc/askgod.yaml'', Unmarshal ''12'' Addr :: (two, nat) call], None,
              Some (CHR ''1'', CHR ''2''))"
    by (simp add: parseConfig_def disk_def two_yaml_def two_Unmarshal_def digit_def)
  have e: "utils_PathExists (disk ''12'') ''/etc/askgod.yaml''"
    by (simp add: disk_def)
  have ok: "ret_conf (ReadConfigFile two_yaml (disk ''12'') notify_ok ''/etc/askgod.yaml'' True
        :: (two, nat) returned) \<noteq> None"
    by (simp add: ReadConfigFile_def p e notify_ok_def)
  show ?thesis
    using C9_watch_setup_failure [OF refl, of "disk ''12''" "''/etc/askgod.yaml''" two_yaml
            "[ReadFile ''/etc/askgod.yaml'', Unmarshal ''12'' Addr :: (two, nat) call]"
            "Some (CHR ''1'', CHR ''2'')" notify_no_watcher "''too many open files''"]
          C9_watch_setup_failure [OF refl, of "disk ''12''" "''/etc/askgod.yaml''" two_yaml
            "[ReadFile ''/etc/askgod.yaml'', Unmarshal ''12'' Addr :: (two, nat) call]"
            "Some (CHR ''1'', CHR ''2'')" notify_no_add "''no space left on device''"]
          C9_watch_setup_failure [OF refl, of "disk ''12''" "''/etc/askgod.yaml''" two_yaml
            "[ReadFile ''/etc/askgod.yaml'', Unmarshal ''12'' Addr :: (two, nat) call]"
            "Some (CHR ''1'', CHR ''2'')" notify_ok "''none''"]
          p e ok
    by (simp add: notify_no_watcher_def notify_no_add_def)
qed

subsection \<open>The first load (C3)\<close>

text \<open>
  C3. When the path does not exist, \<^verbatim>\<open>ReadConfigFile\<close> returns the does-not-exist error
  after the existence check alone: the file is not read. When the file is read but its
  bytes do not decode, it returns the parse error. When it returns no error, the store
  it returns holds the document decoded from the file's bytes and has no handlers.
  Whenever it returns an error, the store it returns is \<^verbatim>\<open>nil\<close>.
\<close>

theorem C3_load:
  fixes Y :: "'d yaml" and R :: "('d, 'h) returned"
  assumes R: "R = ReadConfigFile Y F N configPath monitor"
  shows
  "(\<not> utils_PathExists F configPath \<longrightarrow>
      R = \<lparr>made = [PathExists configPath], ret_conf = None,
           ret_err = Some (DoesNotExist configPath), started = None\<rparr>)
   \<and> (utils_PathExists F configPath \<and> ioutil_ReadFile F configPath = Inr content
        \<and> yaml_Unmarshal Y content Addr None = (Some e, d) \<longrightarrow>
        R = \<lparr>made = [PathExists configPath, Info ''Parsing configuration'' configPath,
                     ReadFile configPath, Unmarshal content Addr],
             ret_conf = None, ret_err = Some (FailedToParse e), started = None\<rparr>)
   \<and> (ret_err R = None \<longrightarrow>
        (\<exists>content d. ioutil_ReadFile F configPath = Inr content
           \<and> yaml_Unmarshal Y content Addr None = (None, d)
           \<and> ret_conf R = Some \<lparr>Config = d, handlers = []\<rparr>))
   \<and> (ret_err R \<noteq> None \<longrightarrow> ret_conf R = None)"
  unfolding R
  by (auto simp: ReadConfigFile_def parseConfig_def Let_def
           split: sum.splits prod.splits option.splits)

theorem C3_witness:
  "\<not> utils_PathExists (disk ''12'') ''/etc/missing.yaml''
   \<and> (ReadConfigFile two_yaml (disk ''12'') notify_ok ''/etc/missing.yaml'' False
        :: (two, nat) returned) =
       \<lparr>made = [PathExists ''/etc/missing.yaml''], ret_conf = None,
        ret_err = Some (DoesNotExist ''/etc/missing.yaml''), started = None\<rparr>
   \<and> utils_PathExists (disk ''x3'') ''/etc/askgod.yaml''
   \<and> ioutil_ReadFile (disk ''x3'') ''/etc/askgod.yaml'' = Inr ''x3''
   \<and> yaml_Unmarshal two_yaml ''x3'' Addr None =
       (Some ''cannot unmarshal'', Some (CHR ''0'', CHR ''3''))
   \<and> (ReadConfigFile two_yaml (disk ''x3'') notify_ok ''/etc/askgod.yaml'' False
        :: (two, nat) returned) =
       \<lparr>made = [PathExists ''/etc/askgod.yaml'',
                Info ''Parsing configuration'' ''/etc/askgod.yaml'',
                ReadFile ''/etc/askgod.yaml'', Unmarshal ''x3'' Addr],
        ret_conf = None, ret_err = Some (FailedToParse ''cannot unmarshal''),
        started = None\<rparr>
   \<and> ret_err (ReadConfigFile two_yaml (disk ''12'') notify_ok ''/etc/askgod.yaml'' False
        :: (two, nat) returned) = None
   \<and> ret_conf (ReadConfigFile two_yaml (disk ''12'') notify_ok ''/etc/askgod.yaml'' False
        :: (two, nat) returned) = Some \<lparr>Config = Some (CHR ''1'', CHR ''2''), handlers = []\<rparr>"
proof -
  have missing: "\<not> utils_PathExists (disk ''12'') ''/etc/missing.yaml''"
    by (simp add: disk_def)
  have there: "utils_PathExists (disk ''x3'') ''/etc/askgod.yaml''"
    "ioutil_ReadFile (disk ''x3'') ''/etc/askgod.yaml'' = Inr ''x3''"
    by (simp_all add: disk_def)
  have bad: "yaml_Unmarshal two_yaml ''x3'' Addr None =
       (Some ''cannot unmarshal'', Some (CHR ''0'', CHR ''3''))"
    by (simp add: two_yaml_def two_Unmarshal_def digit_def)
  have good: "ret_err (ReadConfigFile two_yaml (disk ''12'') notify_ok ''/etc/askgod.yaml'' False
        :: (two, nat) returned) = None"
    by (simp add: ReadConfigFile_def parseConfig_def disk_def two_yaml_def two_Unmarshal_def
                  digit_def)
  have doc: "yaml_Unmarshal two_yaml ''12'' Addr None = (None, Some (CHR ''1'', CHR ''2''))"
    "ioutil_ReadFile (disk ''12'') ''/etc/askgod.yaml'' = Inr ''12''"
    by (simp_all add: two_yaml_def two_Unmarshal_def digit_def disk_def)
  from C3_load [OF refl, of "disk ''12''" "''/etc/missing.yaml''" two_yaml notify_ok False] missing
  have 1: "(ReadConfigFile two_yaml (disk ''12'') notify_ok ''/etc/missing.yaml'' False
        :: (two, nat) returned) =
       \<lparr>made = [PathExists ''/etc/missing.yaml''], ret_conf = None,
        ret_err = Some (DoesNotExist ''/etc/missing.yaml''), started = None\<rparr>"
    by blast
  from C3_load [OF refl, of "disk ''x3''" "''/etc/askgod.yaml''" two_yaml notify_ok False
                 "''x3''" "''cannot unmarshal''" "Some (CHR ''0'', CHR ''3'')"]
       there bad
  have 2: "(ReadConfigFile two_yaml (disk ''x3'') notify_ok ''/etc/askgod.yaml'' False
        :: (two, nat) returned) =
       \<lparr>made = [PathExists ''/etc/askgod.yaml'',
                Info ''Parsing configuration'' ''/etc/askgod.yaml'',
                ReadFile ''/etc/askgod.yaml'', Unmarshal ''x3'' Addr],
        ret_conf = None, ret_err = Some (FailedToParse ''cannot unmarshal''),
        started = None\<rparr>"
    by blast
  from C3_load [OF refl, of "disk ''12''" "''/etc/askgod.yaml''" two_yaml notify_ok False] good doc
  have 3: "ret_conf (ReadConfigFile two_yaml (disk ''12'') notify_ok ''/etc/askgod.yaml'' False
        :: (two, nat) returned) = Some \<lparr>Config = Some (CHR ''1'', CHR ''2''), handlers = []\<rparr>"
    by auto
  from missing there bad good 1 2 3 show ?thesis by blast
qed

subsection \<open>Unchanged content (C6)\<close>

text \<open>
  C6. When the encoding of the document after the decode equals the encoding taken
  before it, the iteration ends with no handler called. When moreover the decode
  returned no error, nothing is logged either: the iteration's calls are the two
  encodings, the sleep, the read and the decode. Rewriting the file with the content
  that the store holds is such a case whenever decoding it again gives the same
  encoding.
\<close>

theorem C6_unchanged_is_silent:
  fixes conf :: "('d, 'h) Config"
  shows
  "name = pathDir W @ ''/'' @ pathBase W
     \<and> iteration Y configPath W F (Events name) conf = (calls, conf')
     \<and> yaml_Marshal Y (Config conf') = yaml_Marshal Y (Config conf)
   \<longrightarrow> invoked calls = []
       \<and> (ioutil_ReadFile F configPath = Inr content
            \<and> yaml_Unmarshal Y content Ptr (Config conf) = (None, d)
          \<longrightarrow> logged calls = []
              \<and> calls = [Marshal (Config conf), Sleep Second, ReadFile configPath,
                          Unmarshal content Ptr, Marshal d])"
proof (intro impI, elim conjE)
  assume n: "name = pathDir W @ ''/'' @ pathBase W"
    and it0: "iteration Y configPath W F (Events name) conf = (calls, conf')"
    and a: "yaml_Marshal Y (Config conf') = yaml_Marshal Y (Config conf)"
  obtain pcalls :: "('d, 'h) call list" and err d'
    where pc: "parseConfig Y F configPath Ptr (Config conf) = (pcalls, err, d')"
    using parseConfig_ex by blast
  note it = it0 [unfolded n]
  from iteration_accepted [OF pc, of W] it
  have c': "conf' = conf\<lparr>Config := d'\<rparr>" by simp
  with a have eq: "yaml_Marshal Y (Config conf) = yaml_Marshal Y d'" by simp
  from iteration_accepted [OF pc, of W] it eq
  have calls: "calls = [Marshal (Config conf), Sleep Second] @ pcalls
        @ (case err of
             Some e \<Rightarrow> [Error ''Failed to read the new configuration'' (Some configPath) e]
           | None \<Rightarrow> [])
        @ [Marshal d']"
    by simp
  from parseConfig_quiet [OF pc] have q: "invoked pcalls = []" "logged pcalls = []" by simp_all
  have 1: "invoked calls = []"
    unfolding calls using q by (simp add: invoked_append split: option.splits)
  have 2: "logged calls = []
              \<and> calls = [Marshal (Config conf), Sleep Second, ReadFile configPath,
                          Unmarshal content Ptr, Marshal d]"
    if "ioutil_ReadFile F configPath = Inr content
            \<and> yaml_Unmarshal Y content Ptr (Config conf) = (None, d)"
    using that pc calls by (auto simp: parseConfig_def)
  from 1 2 show "invoked calls = []
       \<and> (ioutil_ReadFile F configPath = Inr content
            \<and> yaml_Unmarshal Y content Ptr (Config conf) = (None, d)
          \<longrightarrow> logged calls = []
              \<and> calls = [Marshal (Config conf), Sleep Second, ReadFile configPath,
                          Unmarshal content Ptr, Marshal d])"
    by blast
qed

theorem C6_witness:
  "''/etc/askgod.yaml'' = pathDir etc_watch @ ''/'' @ pathBase etc_watch
   \<and> iteration two_yaml ''/etc/askgod.yaml'' etc_watch (disk ''12'')
         (Events ''/etc/askgod.yaml'') held =
       ([Marshal (Some (CHR ''1'', CHR ''2'')), Sleep Second, ReadFile ''/etc/askgod.yaml'',
         Unmarshal ''12'' Ptr, Marshal (Some (CHR ''1'', CHR ''2''))], held)
   \<and> yaml_Marshal two_yaml (Config held) = yaml_Marshal two_yaml (Config held)
   \<and> ioutil_ReadFile (disk ''12'') ''/etc/askgod.yaml'' = Inr ''12''
   \<and> yaml_Unmarshal two_yaml ''12'' Ptr (Config held) = (None, Some (CHR ''1'', CHR ''2''))
   \<and> invoked ([Marshal (Some (CHR ''1'', CHR ''2'')), Sleep Second,
                ReadFile ''/etc/askgod.yaml'', Unmarshal ''12'' Ptr,
                Marshal (Some (CHR ''1'', CHR ''2''))] :: (two, nat) call list) = []
   \<and> logged ([Marshal (Some (CHR ''1'', CHR ''2'')), Sleep Second,
               ReadFile ''/etc/askgod.yaml'', Unmarshal ''12'' Ptr,
               Marshal (Some (CHR ''1'', CHR ''2''))] :: (two, nat) call list) = []"
proof -
  have n: "''/etc/askgod.yaml'' = pathDir etc_watch @ ''/'' @ pathBase etc_watch"
    by (simp add: etc_watch_def)
  have it: "iteration two_yaml ''/etc/askgod.yaml'' etc_watch (disk ''12'')
         (Events ''/etc/askgod.yaml'') held =
       ([Marshal (Some (CHR ''1'', CHR ''2'')), Sleep Second, ReadFile ''/etc/askgod.yaml'',
         Unmarshal ''12'' Ptr, Marshal (Some (CHR ''1'', CHR ''2''))], held)"
    by (simp add: iteration_def parseConfig_def etc_watch_def disk_def held_def two_yaml_def
                  Let_def two_Unmarshal_def two_Marshal_def digit_def)
  have rd: "ioutil_ReadFile (disk ''12'') ''/etc/askgod.yaml'' = Inr ''12''"
    by (simp add: disk_def)
  have un: "yaml_Unmarshal two_yaml ''12'' Ptr (Config held) =
              (None, Some (CHR ''1'', CHR ''2''))"
    by (simp add: two_yaml_def two_Unmarshal_def digit_def held_def)
  from C6_unchanged_is_silent [of "''/etc/askgod.yaml''" etc_watch two_yaml
         "''/etc/askgod.yaml''" "disk ''12''" held _ held "''12''"
         "Some (CHR ''1'', CHR ''2'')"]
       n it rd un
  show ?thesis
    by simp
qed

subsection \<open>The sleep and the old encoding (C7)\<close>

text \<open>
  C7. An accepted event first encodes the document the store holds, then sleeps one
  second, and only then reads and decodes the file; there is no other sleep in the
  iteration. Whether handlers are called is decided by comparing that first encoding,
  taken from the held document and not from the file, with the encoding after the
  decode. The sleep is fixed: over a whole session there is one sleep of one second
  for each accepted event, whatever else arrives.
\<close>

theorem C7_debounce_and_baseline:
  fixes conf :: "('d, 'h) Config"
  shows
  "(name = pathDir W @ ''/'' @ pathBase W
      \<and> iteration Y configPath W F (Events name) conf = (calls, conf')
    \<longrightarrow> (\<exists>rest. calls = Marshal (Config conf) # Sleep Second # ReadFile configPath # rest
                 \<and> sleeps rest = [])
        \<and> invoked calls =
            (if yaml_Marshal Y (Config conf) = yaml_Marshal Y (Config conf') then []
             else map (\<lambda>handler. (handler, conf')) (handlers conf)))
   \<and> sleeps (fst (session Y configPath W xs conf)) =
       replicate (length (filter (accepts W) xs)) Second
   \<and> Second = 1000000000"
proof (intro conjI impI; (elim conjE)?)
  assume n: "name = pathDir W @ ''/'' @ pathBase W"
    and it0: "iteration Y configPath W F (Events name) conf = (calls, conf')"
  obtain pcalls :: "('d, 'h) call list" and err d
    where pc: "parseConfig Y F configPath Ptr (Config conf) = (pcalls, err, d)"
    using parseConfig_ex by blast
  note it = it0 [unfolded n]
  from iteration_accepted [OF pc, of W] it
  have c': "conf' = conf\<lparr>Config := d\<rparr>"
    and calls: "calls = [Marshal (Config conf), Sleep Second] @ pcalls
        @ (case err of
             Some e \<Rightarrow> [Error ''Failed to read the new configuration'' (Some configPath) e]
           | None \<Rightarrow> [])
        @ [Marshal d]
        @ (if yaml_Marshal Y (Config conf) = yaml_Marshal Y d then []
           else Info ''Configuration file changed, reloading'' configPath
                  # map (\<lambda>handler. Handler handler (conf\<lparr>Config := d\<rparr>)) (handlers conf))"
    by simp_all
  from parseConfig_quiet [OF pc] have q: "invoked pcalls = []" "sleeps pcalls = []" by simp_all
  from parseConfig_cases [OF pc] obtain tl where tl: "pcalls = ReadFile configPath # tl"
    by auto
  with q have "sleeps tl = []" by simp
  then show "\<exists>rest. calls = Marshal (Config conf) # Sleep Second # ReadFile configPath # rest
                 \<and> sleeps rest = []"
    unfolding calls tl
    by (simp add: sleeps_append sleeps_handlers split: option.splits)
  show "invoked calls =
            (if yaml_Marshal Y (Config conf) = yaml_Marshal Y (Config conf') then []
             else map (\<lambda>handler. (handler, conf')) (handlers conf))"
    unfolding calls using q c'
    by (simp add: invoked_append invoked_handlers split: option.splits)
next
  show "sleeps (fst (session Y configPath W xs conf)) =
       replicate (length (filter (accepts W) xs)) Second"
    by (rule session_sleeps)
next
  show "Second = 1000000000" by (simp add: Second_def)
qed

theorem C7_witness:
  "''/etc/askgod.yaml'' = pathDir etc_watch @ ''/'' @ pathBase etc_watch
   \<and> iteration two_yaml ''/etc/askgod.yaml'' etc_watch (disk ''34'')
         (Events ''/etc/askgod.yaml'') held =
       ([Marshal (Some (CHR ''1'', CHR ''2'')), Sleep Second, ReadFile ''/etc/askgod.yaml'',
         Unmarshal ''34'' Ptr, Marshal (Some (CHR ''3'', CHR ''4'')),
         Info ''Configuration file changed, reloading'' ''/etc/askgod.yaml'',
         Handler 10 \<lparr>Config = Some (CHR ''3'', CHR ''4''), handlers = [10, 20]\<rparr>,
         Handler 20 \<lparr>Config = Some (CHR ''3'', CHR ''4''), handlers = [10, 20]\<rparr>],
        \<lparr>Config = Some (CHR ''3'', CHR ''4''), handlers = [10, 20]\<rparr>)
   \<and> sleeps ([Unmarshal ''34'' Ptr, Marshal (Some (CHR ''3'', CHR ''4'')),
         Info ''Configuration file changed, reloading'' ''/etc/askgod.yaml'',
         Handler 10 \<lparr>Config = Some (CHR ''3'', CHR ''4''), handlers = [10, 20]\<rparr>,
         Handler 20 \<lparr>Config = Some (CHR ''3'', CHR ''4''), handlers = [10, 20]\<rparr>]
        :: (two, nat) call list) = []
   \<and> sleeps (fst (session two_yaml ''/etc/askgod.yaml'' etc_watch
                 [Received (Events ''/etc/askgod.yaml'') (disk ''34''),
                  Received (Events ''/etc/passwd'') (disk ''34''),
                  Received (Events ''/etc/askgod.yaml'') (disk ''56'')] held)) =
       [Second, Second]"
proof -
  have n: "''/etc/askgod.yaml'' = pathDir etc_watch @ ''/'' @ pathBase etc_watch"
    by (simp add: etc_watch_def)
  have it: "iteration two_yaml ''/etc/askgod.yaml'' etc_watch (disk ''34'')
         (Events ''/etc/askgod.yaml'') held =
       ([Marshal (Some (CHR ''1'', CHR ''2'')), Sleep Second, ReadFile ''/etc/askgod.yaml'',
         Unmarshal ''34'' Ptr, Marshal (Some (CHR ''3'', CHR ''4'')),
         Info ''Configuration file changed, reloading'' ''/etc/askgod.yaml'',
         Handler 10 \<lparr>Config = Some (CHR ''3'', CHR ''4''), handlers = [10, 20]\<rparr>,
         Handler 20 \<lparr>Config = Some (CHR ''3'', CHR ''4''), handlers = [10, 20]\<rparr>],
        \<lparr>Config = Some (CHR ''3'', CHR ''4''), handlers = [10, 20]\<rparr>)"
    by (simp add: iteration_def parseConfig_def etc_watch_def disk_def held_def two_yaml_def
                  Let_def two_Unmarshal_def two_Marshal_def digit_def)
  note C7 = C7_debounce_and_baseline [of "''/etc/askgod.yaml''" etc_watch two_yaml
         "''/etc/askgod.yaml''" "disk ''34''" held _
         "\<lparr>Config = Some (CHR ''3'', CHR ''4''), handlers = [10, 20]\<rparr>"
         "[Received (Events ''/etc/askgod.yaml'') (disk ''34''),
           Received (Events ''/etc/passwd'') (disk ''34''),
           Received (Events ''/etc/askgod.yaml'') (disk ''56'')]"]
  have acc: "filter (accepts etc_watch)
               [Received (Events ''/etc/askgod.yaml'') (disk ''34''),
                Received (Events ''/etc/passwd'') (disk ''34''),
                Received (Events ''/etc/askgod.yaml'') (disk ''56'')] =
               [Received (Events ''/etc/askgod.yaml'') (disk ''34''),
                Received (Events ''/etc/askgod.yaml'') (disk ''56'')]"
    by (simp add: accepts_def etc_watch_def)
  have s: "sleeps (fst (session two_yaml ''/etc/askgod.yaml'' etc_watch
                 [Received (Events ''/etc/askgod.yaml'') (disk ''34''),
                  Received (Events ''/etc/passwd'') (disk ''34''),
                  Received (Events ''/etc/askgod.yaml'') (disk ''56'')] held)) =
       [Second, Second]"
    unfolding C7 [THEN conjunct2, THEN conjunct1] acc
    by (simp add: numeral_2_eq_2)
  have r: "sleeps ([Unmarshal ''34'' Ptr, Marshal (Some (CHR ''3'', CHR ''4'')),
         Info ''Configuration file changed, reloading'' ''/etc/askgod.yaml'',
         Handler 10 \<lparr>Config = Some (CHR ''3'', CHR ''4''), handlers = [10, 20]\<rparr>,
         Handler 20 \<lparr>Config = Some (CHR ''3'', CHR ''4''), handlers = [10, 20]\<rparr>]
        :: (two, nat) call list) = []"
    by simp
  from n it s r show ?thesis
    by blast
qed

subsection \<open>The document the store holds (C2)\<close>






subsection \<open>The event filter (C4)\<close>

lemma Dir_etc: "Dir ''/etc/askgod.yaml'' = ''/etc''"
  by (simp add: Dir_def Clean_def IsPathSeparator_def)

lemma Base_etc: "Base ''/etc/askgod.yaml'' = ''askgod.yaml''"
  by (simp add: Base_def IsPathSeparator_def)

lemma started_watch:
  fixes Y :: "'d yaml"
  assumes "started (ReadConfigFile Y F N p m :: ('d, 'h) returned) = Some W"
  shows "W = \<lparr>pathDir = Dir p, pathBase = Base p\<rparr>"
proof -
  obtain calls :: "('d, 'h) call list" and err d
    where pc: "parseConfig Y F p Addr None = (calls, err, d)"
    using parseConfig_ex by blast
  have "watched_dir p = Dir p"
    by (simp add: Dir_not_empty watched_dir_def)
  with pc assms show ?thesis
    by (auto simp add: ReadConfigFile_def Let_def split: option.splits if_splits)
qed

text \<open>
  C4. The goroutine that \<^verbatim>\<open>ReadConfigFile\<close> starts for \<^verbatim>\<open>configPath\<close> captures the
  directory and the base name of that path. An event it receives starts a reload (the
  old encoding is taken, the goroutine sleeps and the file is read) exactly when its
  name is the watched file's full path, \<^verbatim>\<open>filepath.Dir(configPath)\<close>, a slash and
  \<^verbatim>\<open>filepath.Base(configPath)\<close>. Any other name, and so the name of any sibling file of
  the same directory, ends the iteration with no call made and the store unchanged.
\<close>

theorem C4_event_filter:
  fixes Y :: "'d yaml" and conf :: "('d, 'h) Config"
  shows
  "started (ReadConfigFile Y F0 N configPath monitor :: ('d, 'h) returned) = Some W \<longrightarrow>
     W = \<lparr>pathDir = Dir configPath, pathBase = Base configPath\<rparr>
     \<and> (name = Dir configPath @ ''/'' @ Base configPath \<longrightarrow>
          (\<exists>rest. fst (iteration Y configPath W F (Events name) conf) =
                    Marshal (Config conf) # Sleep Second # ReadFile configPath # rest))
     \<and> (name \<noteq> Dir configPath @ ''/'' @ Base configPath \<longrightarrow>
          iteration Y configPath W F (Events name) conf = ([], conf))
     \<and> (sibling \<noteq> Base configPath \<longrightarrow>
          iteration Y configPath W F (Events (Dir configPath @ ''/'' @ sibling)) conf =
            ([], conf))"
proof (intro impI)
  assume "started (ReadConfigFile Y F0 N configPath monitor :: ('d, 'h) returned) = Some W"
  then have W: "W = \<lparr>pathDir = Dir configPath, pathBase = Base configPath\<rparr>"
    by (rule started_watch)
  then have watched: "pathDir W @ ''/'' @ pathBase W = Dir configPath @ ''/'' @ Base configPath"
    by simp
  have accepted: "\<exists>rest. fst (iteration Y configPath W F (Events name) conf) =
                    Marshal (Config conf) # Sleep Second # ReadFile configPath # rest"
    if n: "name = Dir configPath @ ''/'' @ Base configPath"
  proof -
    obtain calls :: "('d, 'h) call list" and err d
      where pc: "parseConfig Y F configPath Ptr (Config conf) = (calls, err, d)"
      using parseConfig_ex by blast
    from parseConfig_cases [OF pc] obtain tl where "calls = ReadFile configPath # tl"
      by auto
    with iteration_accepted [OF pc, of W] n watched show ?thesis
      by simp
  qed
  have rejected: "iteration Y configPath W F (Events name) conf = ([], conf)"
    if "name \<noteq> Dir configPath @ ''/'' @ Base configPath"
    using that watched by (simp add: iteration_rejected)
  have siblings: "iteration Y configPath W F (Events (Dir configPath @ ''/'' @ sibling)) conf =
            ([], conf)"
    if "sibling \<noteq> Base configPath"
    using that W by (simp add: iteration_rejected)
  from W accepted rejected siblings
  show "W = \<lparr>pathDir = Dir configPath, pathBase = Base configPath\<rparr>
     \<and> (name = Dir configPath @ ''/'' @ Base configPath \<longrightarrow>
          (\<exists>rest. fst (iteration Y configPath W F (Events name) conf) =
                    Marshal (Config conf) # Sleep Second # ReadFile configPath # rest))
     \<and> (name \<noteq> Dir configPath @ ''/'' @ Base configPath \<longrightarrow>
          iteration Y configPath W F (Events name) conf = ([], conf))
     \<and> (sibling \<noteq> Base configPath \<longrightarrow>
          iteration Y configPath W F (Events (Dir configPath @ ''/'' @ sibling)) conf =
            ([], conf))"
    by blast
qed

theorem C4_witness:
  "started (ReadConfigFile two_yaml (disk ''12'') notify_ok ''/etc/askgod.yaml'' True
      :: (two, nat) returned) = Some etc_watch
   \<and> Dir ''/etc/askgod.yaml'' @ ''/'' @ Base ''/etc/askgod.yaml'' = ''/etc/askgod.yaml''
   \<and> (\<exists>rest. fst (iteration two_yaml ''/etc/askgod.yaml'' etc_watch (disk ''34'')
                      (Events ''/etc/askgod.yaml'') held) =
         Marshal (Config held) # Sleep Second # ReadFile ''/etc/askgod.yaml'' # rest)
   \<and> ''/etc/passwd'' \<noteq> Dir ''/etc/askgod.yaml'' @ ''/'' @ Base ''/etc/askgod.yaml''
   \<and> iteration two_yaml ''/etc/askgod.yaml'' etc_watch (disk ''34'')
          (Events ''/etc/passwd'') held = ([], held)
   \<and> ''askgod.yaml.swp'' \<noteq> Base ''/etc/askgod.yaml''
   \<and> iteration two_yaml ''/etc/askgod.yaml'' etc_watch (disk ''34'')
          (Events ''/etc/askgod.yaml.swp'') held = ([], held)"
proof -
  have st: "started (ReadConfigFile two_yaml (disk ''12'') notify_ok ''/etc/askgod.yaml'' True
      :: (two, nat) returned) = Some etc_watch"
    by (simp add: ReadConfigFile_def parseConfig_def disk_def two_yaml_def two_Unmarshal_def
                  digit_def notify_ok_def watched_dir_def Dir_etc Base_etc etc_watch_def)
  note C4 = C4_event_filter [where Y = two_yaml and ?F0.0 = "disk ''12''" and N = notify_ok
      and configPath = "''/etc/askgod.yaml''" and monitor = True and W = etc_watch
      and F = "disk ''34''" and conf = held and sibling = "''askgod.yaml.swp''"]
  from mp [OF C4 [where name = "''/etc/askgod.yaml''"] st]
       mp [OF C4 [where name = "''/etc/passwd''"] st]
  show ?thesis
    using st by (simp add: Dir_etc Base_etc)
qed

subsection \<open>Notification (C5)\<close>

text \<open>
  C5, as the code has it. When an accepted event whose decode returned no error ends
  with the two encodings different, the handler calls of that iteration are exactly
  the handlers of the store, each once, in the order of the list, each passed the
  store as it is after the decode; that store's document is the result of that decode
  of the file's bytes, and its handlers are unchanged. The list is in registration
  order: registering handlers appends them. (Registrations are taken between
  iterations.)
\<close>

theorem C5_notification:
  fixes conf :: "('d, 'h) Config"
  shows
  "(name = pathDir W @ ''/'' @ pathBase W
      \<and> ioutil_ReadFile F configPath = Inr content
      \<and> yaml_Unmarshal Y content Ptr (Config conf) = (None, d)
      \<and> iteration Y configPath W F (Events name) conf = (calls, conf')
      \<and> yaml_Marshal Y (Config conf) \<noteq> yaml_Marshal Y (Config conf')
    \<longrightarrow> invoked calls = map (\<lambda>handler. (handler, conf')) (handlers conf)
        \<and> conf' = conf\<lparr>Config := d\<rparr>)
   \<and> snd (session Y configPath W (map Registered hs) conf) =
       conf\<lparr>handlers := handlers conf @ hs\<rparr>"
proof (intro conjI impI; (elim conjE)?)
  assume n: "name = pathDir W @ ''/'' @ pathBase W"
    and rd: "ioutil_ReadFile F configPath = Inr content"
    and un: "yaml_Unmarshal Y content Ptr (Config conf) = (None, d)"
    and it0: "iteration Y configPath W F (Events name) conf = (calls, conf')"
    and ne0: "yaml_Marshal Y (Config conf) \<noteq> yaml_Marshal Y (Config conf')"
  have pc: "parseConfig Y F configPath Ptr (Config conf) =
              ([ReadFile configPath, Unmarshal content Ptr :: ('d, 'h) call], None, d)"
    using rd un by (simp add: parseConfig_def)
  note it = it0 [unfolded n]
  from iteration_accepted [OF pc, of W] it
  have c': "conf' = conf\<lparr>Config := d\<rparr>"
    and calls: "calls = [Marshal (Config conf), Sleep Second]
        @ [ReadFile configPath, Unmarshal content Ptr]
        @ [Marshal d]
        @ (if yaml_Marshal Y (Config conf) = yaml_Marshal Y d then []
           else Info ''Configuration file changed, reloading'' configPath
                  # map (\<lambda>handler. Handler handler (conf\<lparr>Config := d\<rparr>)) (handlers conf))"
    by simp_all
  from ne0 c' have ne: "yaml_Marshal Y (Config conf) \<noteq> yaml_Marshal Y d" by simp
  show "invoked calls = map (\<lambda>handler. (handler, conf')) (handlers conf)"
    unfolding calls using ne c'
    by (simp add: invoked_handlers)
  show "conf' = conf\<lparr>Config := d\<rparr>" by (rule c')
next
  show "snd (session Y configPath W (map Registered hs) conf) =
       conf\<lparr>handlers := handlers conf @ hs\<rparr>"
    by (simp add: session_registrations)
qed

theorem C5_witness:
  "''/etc/askgod.yaml'' = pathDir etc_watch @ ''/'' @ pathBase etc_watch
   \<and> ioutil_ReadFile (disk ''34'') ''/etc/askgod.yaml'' = Inr ''34''
   \<and> yaml_Unmarshal two_yaml ''34'' Ptr (Config held) = (None, Some (CHR ''3'', CHR ''4''))
   \<and> iteration two_yaml ''/etc/askgod.yaml'' etc_watch (disk ''34'')
         (Events ''/etc/askgod.yaml'') held =
       ([Marshal (Some (CHR ''1'', CHR ''2'')), Sleep Second, ReadFile ''/etc/askgod.yaml'',
         Unmarshal ''34'' Ptr, Marshal (Some (CHR ''3'', CHR ''4'')),
         Info ''Configuration file changed, reloading'' ''/etc/askgod.yaml'',
         Handler 10 \<lparr>Config = Some (CHR ''3'', CHR ''4''), handlers = [10, 20]\<rparr>,
         Handler 20 \<lparr>Config = Some (CHR ''3'', CHR ''4''), handlers = [10, 20]\<rparr>],
        \<lparr>Config = Some (CHR ''3'', CHR ''4''), handlers = [10, 20]\<rparr>)
   \<and> yaml_Marshal two_yaml (Config held) \<noteq>
       yaml_Marshal two_yaml (Some (CHR ''3'', CHR ''4''))
   \<and> invoked ([Marshal (Some (CHR ''1'', CHR ''2'')), Sleep Second,
                ReadFile ''/etc/askgod.yaml'',
                Unmarshal ''34'' Ptr, Marshal (Some (CHR ''3'', CHR ''4'')),
                Info ''Configuration file changed, reloading'' ''/etc/askgod.yaml'',
                Handler 10 \<lparr>Config = Some (CHR ''3'', CHR ''4''), handlers = [10, 20]\<rparr>,
                Handler 20 \<lparr>Config = Some (CHR ''3'', CHR ''4''), handlers = [10, 20]\<rparr>]
               :: (two, nat) call list) =
       [(10, \<lparr>Config = Some (CHR ''3'', CHR ''4''), handlers = [10, 20]\<rparr>),
        (20, \<lparr>Config = Some (CHR ''3'', CHR ''4''), handlers = [10, 20]\<rparr>)]
   \<and> snd (session two_yaml ''/etc/askgod.yaml'' etc_watch (map Registered [30, 40]) held) =
       \<lparr>Config = Some (CHR ''1'', CHR ''2''), handlers = [10, 20, 30, 40]\<rparr>"
proof -
  have n: "''/etc/askgod.yaml'' = pathDir etc_watch @ ''/'' @ pathBase etc_watch"
    by (simp add: etc_watch_def)
  have rd: "ioutil_ReadFile (disk ''34'') ''/etc/askgod.yaml'' = Inr ''34''"
    by (simp add: disk_def)
  have un: "yaml_Unmarshal two_yaml ''34'' Ptr (Config held) =
              (None, Some (CHR ''3'', CHR ''4''))"
    by (simp add: two_yaml_def two_Unmarshal_def digit_def held_def)
  have it: "iteration two_yaml ''/etc/askgod.yaml'' etc_watch (disk ''34'')
         (Events ''/etc/askgod.yaml'') held =
       ([Marshal (Some (CHR ''1'', CHR ''2'')), Sleep Second, ReadFile ''/etc/askgod.yaml'',
         Unmarshal ''34'' Ptr, Marshal (Some (CHR ''3'', CHR ''4'')),
         Info ''Configuration file changed, reloading'' ''/etc/askgod.yaml'',
         Handler 10 \<lparr>Config = Some (CHR ''3'', CHR ''4''), handlers = [10, 20]\<rparr>,
         Handler 20 \<lparr>Config = Some (CHR ''3'', CHR ''4''), handlers = [10, 20]\<rparr>],
        \<lparr>Config = Some (CHR ''3'', CHR ''4''), handlers = [10, 20]\<rparr>)"
    by (simp add: iteration_def parseConfig_def etc_watch_def disk_def held_def two_yaml_def
                  Let_def two_Unmarshal_def two_Marshal_def digit_def)
  have ne: "yaml_Marshal two_yaml (Config held) \<noteq>
       yaml_Marshal two_yaml (Some (CHR ''3'', CHR ''4''))"
    by (simp add: two_yaml_def two_Marshal_def held_def)
  from C5_notification [where name = "''/etc/askgod.yaml''" and W = etc_watch
         and Y = two_yaml and configPath = "''/etc/askgod.yaml''" and F = "disk ''34''"
         and conf = held and content = "''34''" and d = "Some (CHR ''3'', CHR ''4'')"
         and conf' = "\<lparr>Config = Some (CHR ''3'', CHR ''4''), handlers = [10, 20]\<rparr>"
         and hs = "[30, 40]"]
       n rd un it ne
  show ?thesis
    by (simp add: held_def)
qed

text \<open>
  On the code, C5 as the specification states it fails. The store holds \<^verbatim>\<open>12\<close> and the
  file is rewritten as \<^verbatim>\<open>x3\<close>: the event is accepted and the two encodings differ, so
  both handlers are called; but the decode returned an error, and the document they are
  passed, \<^verbatim>\<open>13\<close>, is not newly decoded content: its first field is the old one.
\<close>

theorem C5_counterexample:
  "''/etc/askgod.yaml'' = pathDir etc_watch @ ''/'' @ pathBase etc_watch
   \<and> ioutil_ReadFile (disk ''x3'') ''/etc/askgod.yaml'' = Inr ''x3''
   \<and> yaml_Unmarshal two_yaml ''x3'' Ptr (Config held) =
       (Some ''cannot unmarshal'', Some (CHR ''1'', CHR ''3''))
   \<and> yaml_Marshal two_yaml (Config held) \<noteq>
       yaml_Marshal two_yaml
         (Config (snd (iteration two_yaml ''/etc/askgod.yaml'' etc_watch (disk ''x3'')
                         (Events ''/etc/askgod.yaml'') held)))
   \<and> invoked (fst (iteration two_yaml ''/etc/askgod.yaml'' etc_watch (disk ''x3'')
                      (Events ''/etc/askgod.yaml'') held)) =
       [(10, \<lparr>Config = Some (CHR ''1'', CHR ''3''), handlers = [10, 20]\<rparr>),
        (20, \<lparr>Config = Some (CHR ''1'', CHR ''3''), handlers = [10, 20]\<rparr>)]"
  by (simp add: iteration_def parseConfig_def etc_watch_def disk_def held_def two_yaml_def
                two_Unmarshal_def two_Marshal_def digit_def Let_def)

subsection \<open>A reload whose decode fails (C1)\<close>

text \<open>
  C1, as the code has it. When \<^verbatim>\<open>parseConfig\<close> returns an error in an accepted event,
  the error is logged, and the store holds whatever \<^verbatim>\<open>yaml.Unmarshal\<close> left behind the
  pointer the store holds: the decode is in place. If that is the document held before
  (as it is when the file could not be read, and when the decoder returns its error
  without having written), the store is unchanged and no handler is called in that
  iteration.
\<close>

theorem C1_failed_decode:
  fixes conf :: "('d, 'h) Config" and pcalls :: "('d, 'h) call list"
  shows
  "name = pathDir W @ ''/'' @ pathBase W
     \<and> parseConfig Y F configPath Ptr (Config conf) = (pcalls, Some e, d)
     \<and> iteration Y configPath W F (Events name) conf = (calls, conf')
   \<longrightarrow> Error ''Failed to read the new configuration'' (Some configPath) e \<in> set calls
       \<and> conf' = conf\<lparr>Config := d\<rparr>
       \<and> (d = Config conf \<longrightarrow> conf' = conf \<and> invoked calls = [])
       \<and> (ioutil_ReadFile F configPath = Inl r \<longrightarrow> d = Config conf \<and> e = FailedToRead r)"
proof (intro impI, elim conjE)
  assume n: "name = pathDir W @ ''/'' @ pathBase W"
    and pc: "parseConfig Y F configPath Ptr (Config conf) = (pcalls, Some e, d)"
    and it0: "iteration Y configPath W F (Events name) conf = (calls, conf')"
  note it = it0 [unfolded n]
  from iteration_accepted [OF pc, of W] it
  have c': "conf' = conf\<lparr>Config := d\<rparr>"
    and calls: "calls = [Marshal (Config conf), Sleep Second] @ pcalls
        @ [Error ''Failed to read the new configuration'' (Some configPath) e]
        @ [Marshal d]
        @ (if yaml_Marshal Y (Config conf) = yaml_Marshal Y d then []
           else Info ''Configuration file changed, reloading'' configPath
                  # map (\<lambda>handler. Handler handler (conf\<lparr>Config := d\<rparr>)) (handlers conf))"
    by simp_all
  from parseConfig_quiet [OF pc] have q: "invoked pcalls = []" by simp
  have 1: "Error ''Failed to read the new configuration'' (Some configPath) e \<in> set calls"
    unfolding calls by simp
  have 2: "conf' = conf \<and> invoked calls = []" if "d = Config conf"
    using that c' q unfolding calls by (simp add: invoked_append)
  have 3: "d = Config conf \<and> e = FailedToRead r" if "ioutil_ReadFile F configPath = Inl r"
    using that pc by (simp add: parseConfig_def)
  from 1 2 3 c'
  show "Error ''Failed to read the new configuration'' (Some configPath) e \<in> set calls
       \<and> conf' = conf\<lparr>Config := d\<rparr>
       \<and> (d = Config conf \<longrightarrow> conf' = conf \<and> invoked calls = [])
       \<and> (ioutil_ReadFile F configPath = Inl r \<longrightarrow> d = Config conf \<and> e = FailedToRead r)"
    by blast
qed

theorem C1_witness:
  "''/etc/askgod.yaml'' = pathDir etc_watch @ ''/'' @ pathBase etc_watch
   \<and> parseConfig two_yaml (disk ''3'') ''/etc/askgod.yaml'' Ptr (Config held) =
       ([ReadFile ''/etc/askgod.yaml'', Unmarshal ''3'' Ptr :: (two, nat) call],
        Some (FailedToParse ''syntax error''), Config held)
   \<and> Error ''Failed to read the new configuration'' (Some ''/etc/askgod.yaml'')
         (FailedToParse ''syntax error'')
       \<in> set (fst (iteration two_yaml ''/etc/askgod.yaml'' etc_watch (disk ''3'')
                     (Events ''/etc/askgod.yaml'') held))
   \<and> snd (iteration two_yaml ''/etc/askgod.yaml'' etc_watch (disk ''3'')
            (Events ''/etc/askgod.yaml'') held) = held
   \<and> invoked (fst (iteration two_yaml ''/etc/askgod.yaml'' etc_watch (disk ''3'')
                      (Events ''/etc/askgod.yaml'') held)) = []
   \<and> ioutil_ReadFile unreadable ''/etc/askgod.yaml'' = Inl ''permission denied''
   \<and> parseConfig two_yaml unreadable ''/etc/askgod.yaml'' Ptr (Config held) =
       ([ReadFile ''/etc/askgod.yaml'' :: (two, nat) call],
        Some (FailedToRead ''permission denied''), Config held)
   \<and> Error ''Failed to read the new configuration'' (Some ''/etc/askgod.yaml'')
         (FailedToRead ''permission denied'')
       \<in> set (fst (iteration two_yaml ''/etc/askgod.yaml'' etc_watch unreadable
                     (Events ''/etc/askgod.yaml'') held))
   \<and> snd (iteration two_yaml ''/etc/askgod.yaml'' etc_watch unreadable
            (Events ''/etc/askgod.yaml'') held) = held
   \<and> invoked (fst (iteration two_yaml ''/etc/askgod.yaml'' etc_watch unreadable
                      (Events ''/etc/askgod.yaml'') held)) = []"
proof -
  have n: "''/etc/askgod.yaml'' = pathDir etc_watch @ ''/'' @ pathBase etc_watch"
    by (simp add: etc_watch_def)
  have pc1: "parseConfig two_yaml (disk ''3'') ''/etc/askgod.yaml'' Ptr (Config held) =
       ([ReadFile ''/etc/askgod.yaml'', Unmarshal ''3'' Ptr :: (two, nat) call],
        Some (FailedToParse ''syntax error''), Config held)"
    by (simp add: parseConfig_def disk_def two_yaml_def two_Unmarshal_def)
  have rd: "ioutil_ReadFile unreadable ''/etc/askgod.yaml'' = Inl ''permission denied''"
    by (simp add: unreadable_def)
  have pc2: "parseConfig two_yaml unreadable ''/etc/askgod.yaml'' Ptr (Config held) =
       ([ReadFile ''/etc/askgod.yaml'' :: (two, nat) call],
        Some (FailedToRead ''permission denied''), Config held)"
    by (simp add: parseConfig_def unreadable_def)
  obtain calls1 conf1 where it1:
    "iteration two_yaml ''/etc/askgod.yaml'' etc_watch (disk ''3'')
       (Events ''/etc/askgod.yaml'') held = (calls1, conf1)"
    by (cases "iteration two_yaml ''/etc/askgod.yaml'' etc_watch (disk ''3'')
                 (Events ''/etc/askgod.yaml'') held") auto
  obtain calls2 conf2 where it2:
    "iteration two_yaml ''/etc/askgod.yaml'' etc_watch unreadable
       (Events ''/etc/askgod.yaml'') held = (calls2, conf2)"
    by (cases "iteration two_yaml ''/etc/askgod.yaml'' etc_watch unreadable
                 (Events ''/etc/askgod.yaml'') held") auto
  from C1_failed_decode [where name = "''/etc/askgod.yaml''" and W = etc_watch
         and Y = two_yaml and F = "disk ''3''" and configPath = "''/etc/askgod.yaml''"
         and conf = held and d = "Config held" and calls = calls1 and conf' = conf1
         and pcalls = "[ReadFile ''/etc/askgod.yaml'', Unmarshal ''3'' Ptr]"
         and e = "FailedToParse ''syntax error''"]
       n pc1 it1
  have 1: "Error ''Failed to read the new configuration'' (Some ''/etc/askgod.yaml'')
             (FailedToParse ''syntax error'') \<in> set calls1"
    "conf1 = held" "invoked calls1 = []"
    by blast+
  from C1_failed_decode [where name = "''/etc/askgod.yaml''" and W = etc_watch
         and Y = two_yaml and F = unreadable and configPath = "''/etc/askgod.yaml''"
         and conf = held and d = "Config held" and calls = calls2 and conf' = conf2
         and pcalls = "[ReadFile ''/etc/askgod.yaml'']"
         and e = "FailedToRead ''permission denied''"]
       n pc2 it2
  have 2: "Error ''Failed to read the new configuration'' (Some ''/etc/askgod.yaml'')
             (FailedToRead ''permission denied'') \<in> set calls2"
    "conf2 = held" "invoked calls2 = []"
    by blast+
  from n pc1 rd pc2 it1 it2 1 2 show ?thesis
    by simp
qed

text \<open>
  On the code, C1 as the specification states it fails. The store holds \<^verbatim>\<open>12\<close> and the
  file is rewritten as \<^verbatim>\<open>x3\<close>: the decode returns an error, having written the second
  field; the store is left holding \<^verbatim>\<open>13\<close>, and both handlers are called in that
  iteration.
\<close>

theorem C1_counterexample:
  "parseConfig two_yaml (disk ''x3'') ''/etc/askgod.yaml'' Ptr (Config held) =
     ([ReadFile ''/etc/askgod.yaml'', Unmarshal ''x3'' Ptr :: (two, nat) call],
      Some (FailedToParse ''cannot unmarshal''), Some (CHR ''1'', CHR ''3''))
   \<and> Config held = Some (CHR ''1'', CHR ''2'')
   \<and> snd (iteration two_yaml ''/etc/askgod.yaml'' etc_watch (disk ''x3'')
            (Events ''/etc/askgod.yaml'') held) =
       \<lparr>Config = Some (CHR ''1'', CHR ''3''), handlers = [10, 20]\<rparr>
   \<and> invoked (fst (iteration two_yaml ''/etc/askgod.yaml'' etc_watch (disk ''x3'')
                      (Events ''/etc/askgod.yaml'') held)) =
       [(10, \<lparr>Config = Some (CHR ''1'', CHR ''3''), handlers = [10, 20]\<rparr>),
        (20, \<lparr>Config = Some (CHR ''1'', CHR ''3''), handlers = [10, 20]\<rparr>)]"
  by (simp add: iteration_def parseConfig_def etc_watch_def disk_def held_def two_yaml_def
                two_Unmarshal_def two_Marshal_def digit_def Let_def)

end
